theory Spec2Isabelle
  imports Main "HOL-Library.Sublist" "HOL-Library.Multiset" "HOL-Library.Word"
begin

section \<open>Python values\<close>

text \<open>
  A Python \<open>str\<close> is a sequence of Unicode code points, and \<open>len\<close> counts code points;
  it is modelled as a list of code points. \<open>py\<close> turns an ASCII literal into such a list.
  A Python \<open>int\<close> is unbounded: \<open>int\<close>, with \<open>//\<close> as \<open>div\<close> (both round down).
\<close>

type_synonym pystr = "nat list"

definition py :: "string \<Rightarrow> pystr" where
  "py s = map of_char s"

definition len :: "'a list \<Rightarrow> int" where
  "len xs = int (length xs)"

section \<open>utils/model\_manager.py: the backend profile\<close>

text \<open>
  \<open>ModelManager\<close> configures itself from \<open>Config.SELECTED_MODEL\<close> before every query
  (\<open>_setup_client\<close>), so each of its methods is a function of the selected model name.
\<close>

record model_manager =
  model_name :: pystr
  max_input_tokens :: int
  max_output_tokens :: int

definition configure_for_model :: "pystr \<Rightarrow> model_manager" where
  "configure_for_model selected =
     (if selected = py ''gemini'' then
        \<lparr>model_name = py ''google/gemini-2.5-pro-preview'',
         max_input_tokens = 1048576, max_output_tokens = 65536\<rparr>
      else if selected = py ''gemini-flash'' then
        \<lparr>model_name = py ''google/gemini-2.5-flash-lite-preview-06-17'',
         max_input_tokens = 1048576, max_output_tokens = 8192\<rparr>
      else
        \<lparr>model_name = py ''gpt-4'',
         max_input_tokens = 8192, max_output_tokens = 4096\<rparr>)"

definition should_apply_token_limits :: "pystr \<Rightarrow> bool" where
  "should_apply_token_limits selected =
     (selected \<notin> set [py ''gemini'', py ''gemini-flash''])"

definition get_max_context_tokens :: "pystr \<Rightarrow> int" where
  "get_max_context_tokens selected = max_input_tokens (configure_for_model selected)"

definition count_tokens_estimate :: "pystr \<Rightarrow> pystr \<Rightarrow> int" where
  "count_tokens_estimate selected text =
     (if selected \<in> set [py ''gemini'', py ''gemini-flash'']
      then len text div 3 else len text div 4)"

section \<open>modules/article\_analyzer.py: the token budget\<close>

record article_analyzer =
  max_context_tokens :: int
  max_message_tokens :: int
  min_completion_tokens :: int

definition analyzer_init :: "pystr \<Rightarrow> article_analyzer" where
  "analyzer_init selected =
     (if should_apply_token_limits selected then
        \<lparr>max_context_tokens = 8192, max_message_tokens = 6000,
         min_completion_tokens = 500\<rparr>
      else
        (let ctx = get_max_context_tokens selected in
         \<lparr>max_context_tokens = ctx, max_message_tokens = min 500000 (ctx div 2),
          min_completion_tokens = 8000\<rparr>))"

text \<open>
  The tokenizer (tiktoken) is outside the repository: \<open>encode\<close> returns the tokens of a
  text, or \<open>None\<close> where the library raises.
\<close>

definition count_tokens :: "pystr \<Rightarrow> (pystr \<Rightarrow> nat list option) \<Rightarrow> pystr \<Rightarrow> int" where
  "count_tokens selected encode text =
     (if should_apply_token_limits selected then
        (case encode text of Some toks \<Rightarrow> len toks | None \<Rightarrow> len text div 4)
      else count_tokens_estimate selected text)"

definition calculate_dynamic_limits ::
  "pystr \<Rightarrow> (pystr \<Rightarrow> nat list option) \<Rightarrow> article_analyzer \<Rightarrow> pystr \<Rightarrow> pystr \<Rightarrow> int \<times> int" where
  "calculate_dynamic_limits selected encode self system_prompt user_prompt_base =
     (let system_tokens = count_tokens selected encode system_prompt;
          base_user_tokens = count_tokens selected encode user_prompt_base;
          completion_tokens =
            (if should_apply_token_limits selected
             then min 2000 (max_context_tokens self div 3)
             else min (min_completion_tokens self) (max_context_tokens self div 4));
          available_for_messages = max_context_tokens self - completion_tokens;
          max_message_tokens = min (max_message_tokens self) available_for_messages;
          total_estimated = max_message_tokens + completion_tokens;
          completion_tokens =
            (if total_estimated > max_context_tokens self
             then max (min_completion_tokens self) (max_context_tokens self - max_message_tokens)
             else completion_tokens)
      in (max_message_tokens, completion_tokens))"

subsection \<open>The budget never exceeds the context window\<close>

lemma calculate_dynamic_limits_sum_any_config:
  "fst (calculate_dynamic_limits selected encode self sp up)
     + snd (calculate_dynamic_limits selected encode self sp up) \<le> max_context_tokens self"
proof -
  have fits: "min m (c - k) + k \<le> c" for m c k :: int
    by linarith
  show ?thesis
    unfolding calculate_dynamic_limits_def Let_def
    using fits [of "max_message_tokens self" "max_context_tokens self"]
    by (simp add: not_less [symmetric])
qed

lemma analyzer_init_cases:
  "analyzer_init selected =
     \<lparr>max_context_tokens = 8192, max_message_tokens = 6000, min_completion_tokens = 500\<rparr>
   \<and> should_apply_token_limits selected
   \<or> analyzer_init selected =
     \<lparr>max_context_tokens = 1048576, max_message_tokens = 500000, min_completion_tokens = 8000\<rparr>
   \<and> \<not> should_apply_token_limits selected"
  by (auto simp: analyzer_init_def should_apply_token_limits_def get_max_context_tokens_def
      configure_for_model_def Let_def)

text \<open>
  C1. For every selected model (the precise OpenAI profile and both approximate Gemini
  profiles, and any other name, which selects the OpenAI profile), every tokenizer and
  every pair of prompts, the limits of an analyzer built for that model satisfy
  \<open>max_message_tokens + completion_tokens \<le> max_context_tokens\<close>, and the completion
  budget is at least the configured minimum \<open>min_completion_tokens\<close>.
\<close>

theorem calculate_dynamic_limits_budget:
  "fst (calculate_dynamic_limits selected encode (analyzer_init selected) sp up)
     + snd (calculate_dynamic_limits selected encode (analyzer_init selected) sp up)
     \<le> max_context_tokens (analyzer_init selected)
   \<and> min_completion_tokens (analyzer_init selected)
     \<le> snd (calculate_dynamic_limits selected encode (analyzer_init selected) sp up)"
proof -
  from analyzer_init_cases [of selected] show ?thesis
  proof (elim disjE conjE)
    assume a: "analyzer_init selected =
      \<lparr>max_context_tokens = 8192, max_message_tokens = 6000, min_completion_tokens = 500\<rparr>"
      and s: "should_apply_token_limits selected"
    show ?thesis by (simp add: a s calculate_dynamic_limits_def Let_def)
  next
    assume a: "analyzer_init selected =
      \<lparr>max_context_tokens = 1048576, max_message_tokens = 500000, min_completion_tokens = 8000\<rparr>"
      and s: "\<not> should_apply_token_limits selected"
    show ?thesis by (simp add: a s calculate_dynamic_limits_def Let_def)
  qed
qed

theorem calculate_dynamic_limits_budget_witness:
  "calculate_dynamic_limits (py ''openai'') (\<lambda>t. None) (analyzer_init (py ''openai''))
     (py ''system'') (py ''user'') = (6000, 2000)
   \<and> calculate_dynamic_limits (py ''gemini'') (\<lambda>t. None) (analyzer_init (py ''gemini''))
     (py ''system'') (py ''user'') = (500000, 8000)
   \<and> (6000::int) + 2000 \<le> max_context_tokens (analyzer_init (py ''openai''))
   \<and> (500000::int) + 8000 \<le> max_context_tokens (analyzer_init (py ''gemini''))"
  using calculate_dynamic_limits_budget [of "py ''openai''" "\<lambda>t. None" "py ''system''" "py ''user''"]
    calculate_dynamic_limits_budget [of "py ''gemini''" "\<lambda>t. None" "py ''system''" "py ''user''"]
  by (simp add: calculate_dynamic_limits_def analyzer_init_def should_apply_token_limits_def
      get_max_context_tokens_def configure_for_model_def py_def Let_def)

section \<open>Python string operations\<close>

text \<open>
  \<open>str.strip()\<close>, \<open>str.split()\<close> and the regular expression class \<open>\s\<close> share one
  notion of whitespace (CPython's \<open>Py_UNICODE_ISSPACE\<close>): the code points below.
\<close>

definition is_space :: "nat \<Rightarrow> bool" where
  "is_space c =
     (c \<in> set [9, 10, 11, 12, 13, 28, 29, 30, 31, 32, 133, 160, 5760, 8232, 8233, 8239, 8287, 12288]
      \<or> (8192 \<le> c \<and> c \<le> 8202))"

definition py_strip :: "pystr \<Rightarrow> pystr" where
  "py_strip s = rev (dropWhile is_space (rev (dropWhile is_space s)))"

text \<open>
  \<open>text.split('. ')\<close>: the pieces between successive, non-overlapping occurrences of a
  full stop followed by a space, scanned from the left; never the empty list.
\<close>

fun split_dot_space :: "pystr \<Rightarrow> pystr list" where
  "split_dot_space [] = [[]]"
| "split_dot_space [c] = [[c]]"
| "split_dot_space (c # d # cs) =
     (if c = 46 \<and> d = 32 then [] # split_dot_space cs
      else (case split_dot_space (d # cs) of
              [] \<Rightarrow> [[c]]
            | p # ps \<Rightarrow> (c # p) # ps))"

text \<open>
  \<open>sentence.split()\<close>: the maximal runs of non-whitespace; \<open>cur\<close> is the word being read.
\<close>

fun split_ws_from :: "pystr \<Rightarrow> pystr \<Rightarrow> pystr list" where
  "split_ws_from cur [] = (if cur = [] then [] else [cur])"
| "split_ws_from cur (c # cs) =
     (if is_space c then (if cur = [] then split_ws_from [] cs else cur # split_ws_from [] cs)
      else split_ws_from (cur @ [c]) cs)"

definition split_ws :: "pystr \<Rightarrow> pystr list" where
  "split_ws s = split_ws_from [] s"

section \<open>modules/elevenlabs\_tts.py: \<open>_split_text_into_chunks\<close>\<close>

text \<open>
  \<open>max_chars\<close> is the attribute \<open>self.max_chars\<close> (1000 after \<open>__init__\<close>).
  \<open>word_loop\<close> is the loop over the words of a sentence that is too long on its own,
  \<open>sentence_loop\<close> the loop over the sentences; both thread \<open>chunks\<close> and the chunk
  being built.
\<close>

definition elevenlabs_max_chars :: int where
  "elevenlabs_max_chars = 1000"

fun word_loop :: "int \<Rightarrow> pystr list \<Rightarrow> pystr \<Rightarrow> pystr list \<Rightarrow> pystr \<times> pystr list" where
  "word_loop max_chars [] word_chunk chunks = (word_chunk, chunks)"
| "word_loop max_chars (w # ws) word_chunk chunks =
     (if len (word_chunk @ w @ py '' '') \<le> max_chars
      then word_loop max_chars ws (word_chunk @ w @ py '' '') chunks
      else word_loop max_chars ws (w @ py '' '')
             (if py_strip word_chunk \<noteq> [] then chunks @ [py_strip word_chunk] else chunks))"

fun sentence_loop :: "int \<Rightarrow> pystr list \<Rightarrow> pystr \<Rightarrow> pystr list \<Rightarrow> pystr \<times> pystr list" where
  "sentence_loop max_chars [] current_chunk chunks = (current_chunk, chunks)"
| "sentence_loop max_chars (sentence # rest) current_chunk chunks =
     (let test_chunk = current_chunk @ sentence @ py ''. '' in
      if len test_chunk \<le> max_chars then sentence_loop max_chars rest test_chunk chunks
      else
        (let chunks = (if py_strip current_chunk \<noteq> [] then chunks @ [py_strip current_chunk]
                       else chunks);
             current_chunk = sentence @ py ''. ''
         in if len current_chunk > max_chars then
              (case word_loop max_chars (split_ws sentence) [] chunks of
                 (word_chunk, chunks) \<Rightarrow>
                   sentence_loop max_chars rest
                     (if py_strip word_chunk \<noteq> [] then word_chunk @ py ''. '' else []) chunks)
            else sentence_loop max_chars rest current_chunk chunks))"

definition split_text_into_chunks :: "int \<Rightarrow> pystr \<Rightarrow> pystr list" where
  "split_text_into_chunks max_chars text =
     (case sentence_loop max_chars (split_dot_space text) [] [] of
        (current_chunk, chunks) \<Rightarrow>
          (let chunks = (if py_strip current_chunk \<noteq> [] then chunks @ [py_strip current_chunk]
                         else chunks)
           in if chunks = [] \<and> py_strip text \<noteq> [] then [py_strip text] else chunks))"

section \<open>modules/audio\_generator.py: \<open>split_long_text\<close>\<close>




















subsection \<open>Chunk sizes\<close>

text \<open>
  The remainder of a word split gets \<open>'. '\<close> appended after the size check, so it can
  reach \<open>max_chars + 1\<close> characters although every word is short.
\<close>

lemma word_split_remainder_overshoot:
  "split_text_into_chunks 10 (py ''aaaa bbbb cccc dddd'') = [py ''aaaa bbbb'', py ''cccc dddd .'']
   \<and> len (py ''cccc dddd .'') = 11"
  by (simp add: split_text_into_chunks_def split_ws_def py_def len_def py_strip_def is_space_def)




section \<open>Audio synthesis: files, the speech backend, chunk reassembly\<close>

text \<open>
  Files are an explicit store from paths to contents; a path names one file. The speech
  backend is outside the repository: \<open>speech_api n text\<close> is the answer to the request
  for \<open>text\<close> made after \<open>n\<close> earlier requests, audio bytes or a failure. The log
  \<open>requests\<close> records every text sent. \<open>clean_text_for_audio\<close> (utils/helpers.py, built
  on Unicode character classes) and the path computations of \<open>Config\<close> and \<open>pathlib\<close>
  are parameters. The pause between two ElevenLabs requests has no effect on the state.
\<close>

type_synonym path = pystr
type_synonym byte = "8 word"
type_synonym filesystem = "path \<Rightarrow> byte list option"

datatype exn = ValueError | IndexError | FileNotFoundError | ApiError nat

record tts_world =
  speech_api :: "nat \<Rightarrow> pystr \<Rightarrow> exn + byte list"
  clean_text_for_audio :: "pystr \<Rightarrow> pystr"
  get_audio_file :: path
  combined_default :: "path \<Rightarrow> path"
  el_chunk_file :: "nat \<Rightarrow> path"
  openai_chunk_file :: "nat \<Rightarrow> path"


subsection \<open>\<open>_combine_audio_chunks\<close> (the same text in both classes)\<close>

text \<open>\<open>shutil.move\<close>: the source must exist; moving a file onto itself changes nothing.\<close>

definition shutil_move :: "path \<Rightarrow> path \<Rightarrow> filesystem \<Rightarrow> exn + filesystem" where
  "shutil_move src dst fs =
     (case fs src of
        None \<Rightarrow> Inl FileNotFoundError
      | Some content \<Rightarrow> Inr ((fs(src := None))(dst \<mapsto> content)))"

text \<open>
  The loop of \<open>_simple_combine_chunks\<close> over \<open>enumerate(chunk_files)\<close>, inside the
  \<open>try\<close>: it stops at the first chunk file that cannot be opened, leaving what was
  written so far.
\<close>

fun append_chunks :: "nat \<Rightarrow> path list \<Rightarrow> path \<Rightarrow> filesystem \<Rightarrow> exn option \<times> filesystem" where
  "append_chunks i [] final_file fs = (None, fs)"
| "append_chunks i (chunk_file # rest) final_file fs =
     (case fs chunk_file of
        None \<Rightarrow> (Some FileNotFoundError, fs)
      | Some content \<Rightarrow>
          (let data = (if i > 0 then drop 1024 content else content);
               written = (case fs final_file of None \<Rightarrow> [] | Some out \<Rightarrow> out)
           in append_chunks (i + 1) rest final_file (fs(final_file \<mapsto> written @ data))))"

definition simple_combine_chunks ::
  "tts_world \<Rightarrow> path list \<Rightarrow> path option \<Rightarrow> filesystem \<Rightarrow> (exn + path) \<times> filesystem" where
  "simple_combine_chunks w chunk_files output_file fs =
     (case (case output_file of
              None \<Rightarrow> (case chunk_files of [] \<Rightarrow> Inl IndexError
                        | c # _ \<Rightarrow> Inr (combined_default w c))
            | Some f \<Rightarrow> Inr f) of
        Inl e \<Rightarrow> (Inl e, fs)
      | Inr final_file \<Rightarrow>
          (case (if final_file = [] then (Some FileNotFoundError, fs)
                 else append_chunks 0 chunk_files final_file (fs(final_file \<mapsto> []))) of
             (None, fs') \<Rightarrow> (Inr final_file, fs')
           | (Some e, fs') \<Rightarrow>
               (case chunk_files of [] \<Rightarrow> (Inl IndexError, fs')
                | c # _ \<Rightarrow> (Inr c, fs'))))"

definition combine_audio_chunks ::
  "tts_world \<Rightarrow> path list \<Rightarrow> path option \<Rightarrow> filesystem \<Rightarrow> (exn + path) \<times> filesystem" where
  "combine_audio_chunks w chunk_files output_file fs =
     (if chunk_files = [] then (Inl ValueError, fs)
      else if length chunk_files = 1 then
        (let final_file = (case output_file of
                             None \<Rightarrow> get_audio_file w
                           | Some f \<Rightarrow> if f \<noteq> [] then f else get_audio_file w)
         in case shutil_move (hd chunk_files) final_file fs of
              Inl e \<Rightarrow> (Inl e, fs)
            | Inr fs' \<Rightarrow> (Inr final_file, fs'))
      else simple_combine_chunks w chunk_files output_file fs)"



subsection \<open>modules/elevenlabs\_tts.py: synthesis\<close>





subsection \<open>modules/audio\_generator.py: synthesis\<close>





subsection \<open>Reassembly\<close>

text \<open>
  What reassembly is meant to write: the first chunk whole, then every later chunk
  without its first 1024 bytes, in order.
\<close>

definition reassembled :: "filesystem \<Rightarrow> path \<Rightarrow> path list \<Rightarrow> byte list" where
  "reassembled fs first later = the (fs first) @ concat (map (\<lambda>c. drop 1024 (the (fs c))) later)"

definition combined_target :: "tts_world \<Rightarrow> path \<Rightarrow> path option \<Rightarrow> path" where
  "combined_target w first output_file =
     (case output_file of None \<Rightarrow> combined_default w first | Some f \<Rightarrow> f)"

definition moved_target :: "tts_world \<Rightarrow> path option \<Rightarrow> path" where
  "moved_target w output_file =
     (case output_file of None \<Rightarrow> get_audio_file w
      | Some f \<Rightarrow> if f \<noteq> [] then f else get_audio_file w)"

lemma append_chunks_later:
  assumes "0 < i"
    and "final_file \<notin> set cs"
    and "\<forall>c\<in>set cs. fs c \<noteq> None"
    and "fs final_file = Some out"
  shows "append_chunks i cs final_file fs
       = (None, fs(final_file \<mapsto> out @ concat (map (\<lambda>c. drop 1024 (the (fs c))) cs)))"
  using assms
proof (induction cs arbitrary: i fs out)
  case Nil
  then have "fs(final_file \<mapsto> out) = fs"
    by (simp add: fun_upd_idem)
  then show ?case by simp
next
  case (Cons c cs)
  from Cons.prems obtain content where content: "fs c = Some content"
    by auto
  let ?fs = "fs(final_file \<mapsto> out @ drop 1024 content)"
  from Cons.prems have ne: "c \<noteq> final_file" and notin: "final_file \<notin> set cs"
    by auto
  have same: "?fs x = fs x" if "x \<in> set cs" for x
    using that notin by auto
  from Cons.prems same have ex: "\<forall>x\<in>set cs. ?fs x \<noteq> None"
    by simp
  have step: "append_chunks i (c # cs) final_file fs = append_chunks (i + 1) cs final_file ?fs"
    using Cons.prems(1,4) content by (simp add: Let_def)
  have ih: "append_chunks (i + 1) cs final_file ?fs
      = (None, ?fs(final_file \<mapsto> (out @ drop 1024 content) @ concat (map (\<lambda>c. drop 1024 (the (?fs c))) cs)))"
    by (rule Cons.IH [OF _ notin ex]) simp_all
  have maps: "map (\<lambda>c. drop 1024 (the (?fs c))) cs = map (\<lambda>c. drop 1024 (the (fs c))) cs"
    by (rule map_cong [OF refl]) (simp only: same)
  have "concat (map (\<lambda>c. drop 1024 (the (fs c))) (c # cs))
      = drop 1024 content @ concat (map (\<lambda>c. drop 1024 (the (fs c))) cs)"
    using content by simp
  then show ?case
    unfolding step ih maps fun_upd_upd by (simp only: append_assoc)
qed

lemma append_chunks_from_start:
  assumes "final_file \<notin> set (c0 # cs)"
    and "\<forall>c\<in>set (c0 # cs). fs c \<noteq> None"
  shows "append_chunks 0 (c0 # cs) final_file (fs(final_file \<mapsto> []))
       = (None, fs(final_file \<mapsto> reassembled fs c0 cs))"
proof -
  from assms obtain content where content: "fs c0 = Some content"
    by auto
  let ?fs = "fs(final_file \<mapsto> content)"
  from assms have ne: "c0 \<noteq> final_file" and notin: "final_file \<notin> set cs"
    by auto
  have same: "?fs x = fs x" if "x \<in> set cs" for x
    using that notin by auto
  from assms same have ex: "\<forall>x\<in>set cs. ?fs x \<noteq> None"
    by simp
  have step: "append_chunks 0 (c0 # cs) final_file (fs(final_file \<mapsto> []))
      = append_chunks 1 cs final_file ?fs"
    using content ne by (simp add: Let_def)
  have later: "append_chunks 1 cs final_file ?fs
      = (None, ?fs(final_file \<mapsto> content @ concat (map (\<lambda>c. drop 1024 (the (?fs c))) cs)))"
    by (rule append_chunks_later [OF _ notin ex]) simp_all
  have maps: "map (\<lambda>c. drop 1024 (the (?fs c))) cs = map (\<lambda>c. drop 1024 (the (fs c))) cs"
    by (rule map_cong [OF refl]) (simp only: same)
  have "reassembled fs c0 cs = content @ concat (map (\<lambda>c. drop 1024 (the (fs c))) cs)"
    using content by (simp add: reassembled_def)
  then show ?thesis
    unfolding step later maps fun_upd_upd by simp
qed

lemma combine_audio_chunks_many:
  assumes "final_file = combined_target w c0 output_file"
    and "final_file \<noteq> []"
    and "final_file \<notin> set (c0 # c1 # rest)"
    and "\<forall>c\<in>set (c0 # c1 # rest). fs c \<noteq> None"
  shows "combine_audio_chunks w (c0 # c1 # rest) output_file fs
       = (Inr final_file, fs(final_file \<mapsto> reassembled fs c0 (c1 # rest)))"
proof -
  have app: "append_chunks 0 (c0 # c1 # rest) final_file (fs(final_file \<mapsto> []))
      = (None, fs(final_file \<mapsto> reassembled fs c0 (c1 # rest)))"
    using assms(3,4) by (rule append_chunks_from_start)
  have "simple_combine_chunks w (c0 # c1 # rest) output_file fs
      = (Inr final_file, fs(final_file \<mapsto> reassembled fs c0 (c1 # rest)))"
  proof (cases output_file)
    case None
    with assms(1) have "final_file = combined_default w c0"
      by (simp add: combined_target_def)
    with None assms(2) app show ?thesis
      by (simp add: simple_combine_chunks_def del: append_chunks.simps)
  next
    case (Some f)
    with assms(1) have "final_file = f"
      by (simp add: combined_target_def)
    with Some assms(2) app show ?thesis
      by (simp add: simple_combine_chunks_def del: append_chunks.simps)
  qed
  then show ?thesis
    by (simp add: combine_audio_chunks_def)
qed

lemma combine_audio_chunks_one:
  assumes "fs c = Some content"
  shows "combine_audio_chunks w [c] output_file fs
       = (Inr (moved_target w output_file), (fs(c := None))(moved_target w output_file \<mapsto> content))"
  using assms
  by (simp add: combine_audio_chunks_def shutil_move_def moved_target_def Let_def
      split: option.splits)

lemma len_drop_1024: "len (drop 1024 xs) = len xs - min 1024 (len xs)"
  by (simp add: len_def)

lemma len_append: "len (xs @ ys) = len xs + len ys"
  by (simp add: len_def)

lemma len_concat: "len (concat xss) = sum_list (map len xss)"
  by (induction xss) (simp_all add: len_append, simp add: len_def)

lemma len_reassembled:
  "len (reassembled fs c0 cs)
     = sum_list (map (\<lambda>c. len (the (fs c))) (c0 # cs))
       - sum_list (map (\<lambda>c. min 1024 (len (the (fs c)))) cs)"
proof -
  have "sum_list (map (\<lambda>c. len (drop 1024 (the (fs c)))) cs)
      = sum_list (map (\<lambda>c. len (the (fs c))) cs) - sum_list (map (\<lambda>c. min 1024 (len (the (fs c)))) cs)"
    by (induction cs) (simp_all add: len_drop_1024)
  then show ?thesis
    by (simp add: reassembled_def len_append len_concat comp_def)
qed

lemma sum_list_min_1024:
  assumes "\<forall>c\<in>set cs. 1024 \<le> len (the (fs c))"
  shows "sum_list (map (\<lambda>c. min 1024 (len (the (fs c)))) cs) = 1024 * len cs"
  using assms by (induction cs) (simp_all add: len_def)

text \<open>An example environment: a backend that always fails, and fixed paths.\<close>

definition example_world :: tts_world where
  "example_world =
     \<lparr>speech_api = (\<lambda>n t. Inl (ApiError 500)),
      clean_text_for_audio = (\<lambda>t. t),
      get_audio_file = py ''daily_briefing.mp3'',
      combined_default = (\<lambda>p. py ''daily_briefing.mp3''),
      el_chunk_file = (\<lambda>i. py ''temp_elevenlabs_chunk_'' @ [48 + i] @ py ''.mp3''),
      openai_chunk_file = (\<lambda>i. py ''temp_audio_chunk_'' @ [48 + i] @ py ''.mp3'')\<rparr>"

text \<open>
  C2, as stated, fails for a later chunk of fewer than 1024 bytes: skipping takes the
  whole chunk, not 1024 bytes. Two chunks of 2 and 3 bytes give 2 bytes, not
  \<open>5 - 1024\<close>.
\<close>

theorem combine_audio_chunks_counterexample:
  "snd (combine_audio_chunks example_world [py ''a'', py ''b''] (Some (py ''o''))
          [py ''a'' \<mapsto> [1, 2], py ''b'' \<mapsto> [3, 4, 5]]) (py ''o'') = Some [1, 2]
   \<and> len [1, 2 :: byte] \<noteq> (len [1, 2 :: byte] + len [3, 4, 5 :: byte]) - 1024 * (len [py ''a'', py ''b''] - 1)"
  by (simp add: combine_audio_chunks_def simple_combine_chunks_def py_def len_def Let_def)

text \<open>
  C2, amended. One chunk file is moved to the final path with its bytes unchanged. For
  two or more chunk files that exist and a final path that is none of them, the final
  file holds the first chunk followed by every later chunk without its first 1024 bytes
  (all of a later chunk shorter than that is skipped), in order; so its byte count is
  the sum of the chunk sizes minus, for every later chunk, the smaller of 1024 and its
  size: \<open>sum - 1024 * (number of chunks - 1)\<close> when every later chunk has at least
  1024 bytes.
\<close>

theorem combine_audio_chunks_bytes:
  "(fs c \<noteq> None \<longrightarrow>
      combine_audio_chunks w [c] output_file fs
        = (Inr (moved_target w output_file),
           (fs(c := None))(moved_target w output_file \<mapsto> the (fs c))))
   \<and> (combined_target w c0 output_file \<noteq> []
        \<and> combined_target w c0 output_file \<notin> set (c0 # c1 # rest)
        \<and> (\<forall>c\<in>set (c0 # c1 # rest). fs c \<noteq> None) \<longrightarrow>
      combine_audio_chunks w (c0 # c1 # rest) output_file fs
        = (Inr (combined_target w c0 output_file),
           fs(combined_target w c0 output_file \<mapsto> reassembled fs c0 (c1 # rest)))
      \<and> len (reassembled fs c0 (c1 # rest))
          = sum_list (map (\<lambda>c. len (the (fs c))) (c0 # c1 # rest))
            - sum_list (map (\<lambda>c. min 1024 (len (the (fs c)))) (c1 # rest))
      \<and> ((\<forall>c\<in>set (c1 # rest). 1024 \<le> len (the (fs c))) \<longrightarrow>
          len (reassembled fs c0 (c1 # rest))
            = sum_list (map (\<lambda>c. len (the (fs c))) (c0 # c1 # rest))
              - 1024 * (len (c0 # c1 # rest) - 1)))"
proof (intro conjI impI)
  assume "fs c \<noteq> None"
  then obtain content where "fs c = Some content"
    by auto
  then show "combine_audio_chunks w [c] output_file fs
        = (Inr (moved_target w output_file),
           (fs(c := None))(moved_target w output_file \<mapsto> the (fs c)))"
    by (simp add: combine_audio_chunks_one)
next
  assume "combined_target w c0 output_file \<noteq> []
        \<and> combined_target w c0 output_file \<notin> set (c0 # c1 # rest)
        \<and> (\<forall>c\<in>set (c0 # c1 # rest). fs c \<noteq> None)"
  then show "combine_audio_chunks w (c0 # c1 # rest) output_file fs
        = (Inr (combined_target w c0 output_file),
           fs(combined_target w c0 output_file \<mapsto> reassembled fs c0 (c1 # rest)))"
    by (intro combine_audio_chunks_many) simp_all
next
  show "len (reassembled fs c0 (c1 # rest))
          = sum_list (map (\<lambda>c. len (the (fs c))) (c0 # c1 # rest))
            - sum_list (map (\<lambda>c. min 1024 (len (the (fs c)))) (c1 # rest))"
    by (rule len_reassembled)
next
  assume "\<forall>c\<in>set (c1 # rest). 1024 \<le> len (the (fs c))"
  then have "sum_list (map (\<lambda>c. min 1024 (len (the (fs c)))) (c1 # rest)) = 1024 * len (c1 # rest)"
    by (rule sum_list_min_1024)
  moreover have "len (c1 # rest) = len (c0 # c1 # rest) - 1"
    by (simp add: len_def)
  ultimately show "len (reassembled fs c0 (c1 # rest))
            = sum_list (map (\<lambda>c. len (the (fs c))) (c0 # c1 # rest))
              - 1024 * (len (c0 # c1 # rest) - 1)"
    by (simp only: len_reassembled)
qed

theorem combine_audio_chunks_bytes_witness:
  "combine_audio_chunks example_world [py ''a''] (Some (py ''o''))
       [py ''a'' \<mapsto> replicate 2000 1, py ''b'' \<mapsto> replicate 1500 2]
     = (Inr (py ''o''), [py ''b'' \<mapsto> replicate 1500 2, py ''o'' \<mapsto> replicate 2000 1])
   \<and> combine_audio_chunks example_world [py ''a'', py ''b''] (Some (py ''o''))
       [py ''a'' \<mapsto> replicate 2000 1, py ''b'' \<mapsto> replicate 1500 2]
     = (Inr (py ''o''),
        [py ''a'' \<mapsto> replicate 2000 1, py ''b'' \<mapsto> replicate 1500 2,
         py ''o'' \<mapsto> replicate 2000 1 @ replicate 476 2])
   \<and> len (replicate 2000 (1 :: byte) @ replicate 476 2) = (2000 + 1500) - 1024 * (2 - 1)"
proof -
  let ?fs = "[py ''a'' \<mapsto> replicate 2000 1, py ''b'' \<mapsto> replicate 1500 (2 :: byte)]"
  have names: "py ''a'' \<noteq> py ''b''" "py ''o'' \<noteq> py ''a''" "py ''o'' \<noteq> py ''b''" "py ''o'' \<noteq> []"
    by (simp_all add: py_def)
  have target: "combined_target example_world (py ''a'') (Some (py ''o'')) = py ''o''"
      "moved_target example_world (Some (py ''o'')) = py ''o''"
    using names by (simp_all add: combined_target_def moved_target_def)
  have bytes: "reassembled ?fs (py ''a'') [py ''b''] = replicate 2000 1 @ replicate 476 2"
    using names by (simp add: reassembled_def)
  from combine_audio_chunks_bytes [of ?fs "py ''a''" example_world "Some (py ''o'')" "py ''a''" "py ''b''" "[]"]
  show ?thesis
    unfolding target bytes using names
    by (auto simp: len_def fun_upd_twist)
qed

subsection \<open>A failed chunk aborts the synthesis\<close>












section \<open>Articles\<close>

text \<open>
  An article is a Python dict used as a struct: a record with one optional field per
  key the code reads or writes (\<open>None\<close>: the key is absent). \<open>dict_get\<close> is
  \<open>article.get(key, default)\<close>.
\<close>

record article =
  title :: "pystr option"
  snippet :: "pystr option"
  url :: "pystr option"
  source :: "pystr option"
  date :: "pystr option"
  query :: "pystr option"
  search_query :: "pystr option"
  category :: "pystr option"
  search_mode :: "pystr option"
  article_id :: "pystr option"
  summary :: "pystr option"
  enhanced :: "bool option"
  enhancement_method :: "pystr option"
  original_snippet :: "pystr option"
  relevance_score :: "int option"
  selected_for_podcast :: "bool option"

definition dict_get :: "'a option \<Rightarrow> 'a \<Rightarrow> 'a" where
  "dict_get field dflt = (case field of None \<Rightarrow> dflt | Some v \<Rightarrow> v)"

text \<open>\<open>xs[:n]\<close>: a negative \<open>n\<close> counts from the end.\<close>

definition py_slice_to :: "int \<Rightarrow> 'a list \<Rightarrow> 'a list" where
  "py_slice_to n xs = (if n \<ge> 0 then take (nat n) xs else take (length xs - nat (- n)) xs)"

text \<open>\<open>str(n)\<close> of a natural number.\<close>

function str_of_nat :: "nat \<Rightarrow> pystr" where
  "str_of_nat n = (if n < 10 then [48 + n] else str_of_nat (n div 10) @ [48 + n mod 10])"
  by pat_completeness auto
termination
  by (relation "measure id") auto

declare str_of_nat.simps [simp del]


definition category_names :: "pystr list" where
  "category_names =
     [py ''APTs & Cyber-Espionage'', py ''Arrests & Cybercrime'', py ''Breaches & Incidents'',
      py ''Cybersecurity IPOs'', py ''Cybersecurity Funding'', py ''Cybersecurity M&A'']"

section \<open>modules/news\_collector.py\<close>

text \<open>
  The search backend is outside the repository: \<open>serper i query\<close> is the answer to the
  request of the \<open>i\<close>-th query, the list under \<open>"news"\<close> or a failure. A result is a
  dict with optional keys.
\<close>

record search_result =
  result_title :: "pystr option"
  result_snippet :: "pystr option"
  result_link :: "pystr option"
  result_source :: "pystr option"
  result_date :: "pystr option"

definition new_article :: "pystr \<Rightarrow> pystr \<Rightarrow> pystr \<Rightarrow> pystr \<Rightarrow> pystr \<Rightarrow> pystr \<Rightarrow> article" where
  "new_article t sn u src d q =
     \<lparr>title = Some t, snippet = Some sn, url = Some u, source = Some src, date = Some d,
      query = Some q, search_query = None, category = None, search_mode = None,
      article_id = None, summary = None, enhanced = None, enhancement_method = None,
      original_snippet = None, relevance_score = None, selected_for_podcast = None\<rparr>"

fun clean_articles :: "pystr \<Rightarrow> search_result list \<Rightarrow> article list \<Rightarrow> article list" where
  "clean_articles q [] cleaned_articles = cleaned_articles"
| "clean_articles q (r # rs) cleaned_articles =
     (let cleaned_article =
            new_article (py_strip (dict_get (result_title r) []))
              (py_strip (dict_get (result_snippet r) []))
              (dict_get (result_link r) []) (dict_get (result_source r) [])
              (dict_get (result_date r) []) q
      in if dict_get (title cleaned_article) [] \<noteq> [] \<and> dict_get (snippet cleaned_article) [] \<noteq> []
         then clean_articles q rs (cleaned_articles @ [cleaned_article])
         else clean_articles q rs cleaned_articles)"

definition search_news :: "(nat \<Rightarrow> pystr \<Rightarrow> exn + search_result list) \<Rightarrow> nat \<Rightarrow> pystr \<Rightarrow> article list" where
  "search_news serper i q =
     (case serper i q of
        Inl e \<Rightarrow> []
      | Inr articles \<Rightarrow> clean_articles q articles [])"

text \<open>The first loop of \<open>collect_daily_news\<close>, over \<open>enumerate(search_queries)\<close>.\<close>

fun query_loop ::
  "(nat \<Rightarrow> pystr \<Rightarrow> exn + search_result list) \<Rightarrow> bool \<Rightarrow> int \<Rightarrow> nat \<Rightarrow> pystr list
     \<Rightarrow> article list \<Rightarrow> article list" where
  "query_loop serper is_google_dorks max_per_category i [] all_articles = all_articles"
| "query_loop serper is_google_dorks max_per_category i (q # rest) all_articles =
     (let articles = search_news serper i q;
          category_name =
            (if is_google_dorks \<and> i < length category_names then category_names ! i
             else py ''Query_'' @ str_of_nat (i + 1));
          articles =
            (if is_google_dorks \<and> articles \<noteq> [] then py_slice_to max_per_category articles
             else articles);
          articles =
            map (\<lambda>a. a\<lparr>search_query := Some q, category := Some category_name,
                        search_mode := Some (if is_google_dorks then py ''google_dorks''
                                             else py ''basic_keywords'')\<rparr>) articles
      in query_loop serper is_google_dorks max_per_category (i + 1) rest (all_articles @ articles))"

text \<open>The second loop: removal of duplicates by URL, with the set \<open>seen_urls\<close>.\<close>

fun unique_loop :: "article list \<Rightarrow> pystr set \<Rightarrow> article list \<Rightarrow> article list" where
  "unique_loop [] seen_urls unique_articles = unique_articles"
| "unique_loop (a # rest) seen_urls unique_articles =
     (let u = dict_get (url a) [] in
      if u \<noteq> [] \<and> u \<notin> seen_urls
      then unique_loop rest (insert u seen_urls) (unique_articles @ [a])
      else unique_loop rest seen_urls unique_articles)"

definition all_articles ::
  "(nat \<Rightarrow> pystr \<Rightarrow> exn + search_result list) \<Rightarrow> pystr list \<Rightarrow> bool \<Rightarrow> int \<Rightarrow> article list" where
  "all_articles serper search_queries is_google_dorks max_per_category =
     query_loop serper is_google_dorks max_per_category 0 search_queries []"

definition collect_daily_news ::
  "(nat \<Rightarrow> pystr \<Rightarrow> exn + search_result list) \<Rightarrow> pystr list \<Rightarrow> bool \<Rightarrow> int \<Rightarrow> article list" where
  "collect_daily_news serper search_queries is_google_dorks max_per_category =
     unique_loop (all_articles serper search_queries is_google_dorks max_per_category) {} []"

subsection \<open>\<open>filter_relevant_articles\<close>\<close>







subsection \<open>Deduplication by URL\<close>

definition url_of :: "article \<Rightarrow> pystr" where
  "url_of a = dict_get (url a) []"

text \<open>
  What deduplication is meant to keep: of the articles with a URL, the first one of each
  URL not seen before, in their order.
\<close>

fun first_seen :: "pystr set \<Rightarrow> article list \<Rightarrow> article list" where
  "first_seen seen [] = []"
| "first_seen seen (a # rest) =
     (if url_of a \<noteq> [] \<and> url_of a \<notin> seen then a # first_seen (insert (url_of a) seen) rest
      else first_seen seen rest)"

lemma unique_loop_first_seen:
  "unique_loop xs seen unique_articles = unique_articles @ first_seen seen xs"
  by (induction xs arbitrary: seen unique_articles) (simp_all add: Let_def url_of_def)

lemma first_seen_urls:
  "set (map url_of (first_seen seen xs)) = set (map url_of xs) - seen - {[]}"
  by (induction xs arbitrary: seen) auto

lemma first_seen_distinct: "distinct (map url_of (first_seen seen xs))"
proof (induction xs arbitrary: seen)
  case Nil
  then show ?case by simp
next
  case (Cons a xs)
  have "url_of a \<notin> set (map url_of (first_seen (insert (url_of a) seen) xs))"
    by (simp only: first_seen_urls) simp
  with Cons show ?case by simp
qed

lemma first_seen_subseq: "subseq (first_seen seen xs) xs"
  by (induction xs arbitrary: seen) (auto intro: subseq_Cons')

lemma first_seen_is_first:
  "a \<in> set (first_seen seen xs) \<Longrightarrow> find (\<lambda>b. url_of b = url_of a) xs = Some a"
proof (induction xs arbitrary: seen)
  case Nil
  then show ?case by simp
next
  case (Cons x xs)
  show ?case
  proof (cases "url_of x \<noteq> [] \<and> url_of x \<notin> seen")
    case True
    show ?thesis
    proof (cases "a = x")
      case True
      then show ?thesis by simp
    next
      case False
      with Cons.prems True have later: "a \<in> set (first_seen (insert (url_of x) seen) xs)"
        by simp
      then have "url_of a \<in> set (map url_of (first_seen (insert (url_of x) seen) xs))"
        by simp
      then have "url_of x \<noteq> url_of a"
        by (simp only: first_seen_urls) auto
      with Cons.IH [OF later] show ?thesis by simp
    qed
  next
    case False
    with Cons.prems have later: "a \<in> set (first_seen seen xs)"
      by auto
    then have "url_of a \<in> set (map url_of (first_seen seen xs))"
      by simp
    then have "url_of a \<noteq> [] \<and> url_of a \<notin> seen"
      by (simp only: first_seen_urls) auto
    with False have "url_of x \<noteq> url_of a"
      by auto
    with Cons.IH [OF later] show ?thesis by simp
  qed
qed

text \<open>
  C4. For every sequence of per-query search results, the collector's output holds every
  URL of the merged results exactly once (an article whose URL is empty is dropped): the
  URLs of the output are distinct and are the non-empty URLs of the merged list; every
  article of the output is the first article of the merged list with its URL, with all
  its fields; and the output is a subsequence of the merged list, so the first-seen
  order is preserved.
\<close>

theorem collect_daily_news_unique_urls:
  "distinct (map url_of (collect_daily_news serper search_queries is_google_dorks max_per_category))
   \<and> set (map url_of (collect_daily_news serper search_queries is_google_dorks max_per_category))
       = set (map url_of (all_articles serper search_queries is_google_dorks max_per_category)) - {[]}
   \<and> (\<forall>a\<in>set (collect_daily_news serper search_queries is_google_dorks max_per_category).
         find (\<lambda>b. url_of b = url_of a)
           (all_articles serper search_queries is_google_dorks max_per_category) = Some a)
   \<and> subseq (collect_daily_news serper search_queries is_google_dorks max_per_category)
       (all_articles serper search_queries is_google_dorks max_per_category)"
proof -
  let ?merged = "all_articles serper search_queries is_google_dorks max_per_category"
  have out: "collect_daily_news serper search_queries is_google_dorks max_per_category
      = first_seen {} ?merged"
    by (simp add: collect_daily_news_def unique_loop_first_seen)
  have "set (map url_of (first_seen {} ?merged)) = set (map url_of ?merged) - {[]}"
    by (simp only: first_seen_urls Diff_empty)
  then show ?thesis
    unfolding out
    by (simp only: first_seen_distinct first_seen_subseq first_seen_is_first simp_thms ball_triv)
      (simp add: first_seen_is_first)
qed

text \<open>Two queries whose results share the URL \<open>https://a.com\<close>.\<close>

definition example_result :: "string \<Rightarrow> string \<Rightarrow> search_result" where
  "example_result t u =
     \<lparr>result_title = Some (py t), result_snippet = Some (py ''news''),
      result_link = Some (py u), result_source = Some (py ''src''), result_date = None\<rparr>"

definition example_serper :: "nat \<Rightarrow> pystr \<Rightarrow> exn + search_result list" where
  "example_serper i q =
     (if i = 0 then Inr [example_result ''first'' ''https://a.com'',
                         example_result ''second'' ''https://b.com'']
      else Inr [example_result ''third'' ''https://a.com''])"

theorem collect_daily_news_unique_urls_witness:
  "map url_of (all_articles example_serper [py ''q1'', py ''q2''] False 5)
     = [py ''https://a.com'', py ''https://b.com'', py ''https://a.com'']
   \<and> map url_of (collect_daily_news example_serper [py ''q1'', py ''q2''] False 5)
     = [py ''https://a.com'', py ''https://b.com'']
   \<and> map title (collect_daily_news example_serper [py ''q1'', py ''q2''] False 5)
     = [Some (py ''first''), Some (py ''second'')]
   \<and> map category (collect_daily_news example_serper [py ''q1'', py ''q2''] False 5)
     = [Some (py ''Query_1''), Some (py ''Query_1'')]"
  using collect_daily_news_unique_urls [of example_serper "[py ''q1'', py ''q2'']" False 5]
  by (simp add: collect_daily_news_def all_articles_def search_news_def example_serper_def
      example_result_def new_article_def url_of_def dict_get_def Let_def py_def py_strip_def
      is_space_def str_of_nat.simps)

subsection \<open>Relevance scores\<close>










section \<open>modules/article\_analyzer.py: \<open>_extract_selected_articles\<close>\<close>

subsection \<open>The two URL patterns\<close>


















subsection \<open>Matching the URLs against the grouped articles\<close>







subsection \<open>The selection\<close>
















section \<open>modules/article\_enhancer.py\<close>

subsection \<open>The world outside and the state\<close>





subsection \<open>The cache\<close>



subsection \<open>Trimming and summarising\<close>










subsection \<open>\<open>enhance_articles\<close>\<close>




subsection \<open>Cache lookup\<close>





subsection \<open>Enhancing a cached article\<close>
















subsection \<open>The summary after enhancement\<close>








end
